theory Spec2Isabelle
  imports Complex_Main "HOL-Library.Sublist"
begin

section \<open>GreenPulse: health scoring, classification and simulated sensor data\<close>

text \<open>
  The embedding follows \<^verbatim>\<open>utils/model_utils.py\<close>, \<^verbatim>\<open>utils/sensor_simulator.py\<close> and
  \<^verbatim>\<open>utils/data_generator.py\<close>. Python floats are modelled by \<^typ>\<open>real\<close>: rounding of
  IEEE doubles, infinities and NaN are outside the model. Python's \<^verbatim>\<open>max(a, b)\<close> and
  \<^verbatim>\<open>min(a, b)\<close> on two numbers are \<^const>\<open>max\<close> and \<^const>\<open>min\<close>.
\<close>

subsection \<open>MossHealthPredictor: labels and the health score\<close>

text \<open>\<^verbatim>\<open>self.labels\<close>, set once in \<^verbatim>\<open>__init__\<close> and never assigned again.\<close>

definition labels :: "string list" where
  "labels = [''Healthy'', ''Needs Water'', ''Needs Shade'', ''Needs Attention'']"

text \<open>\<^verbatim>\<open>calculate_health_score\<close>, statement by statement.\<close>

definition calculate_health_score :: "real \<Rightarrow> real \<Rightarrow> real \<Rightarrow> real" where
  "calculate_health_score humidity light moisture =
     (let humidity_score0 = 1 - \<bar>humidity - 70\<bar> / 50;
          light_score0 = 1 - \<bar>light - 500\<bar> / 700;
          moisture_score0 = 1 - \<bar>moisture - 650\<bar> / 450;
          humidity_score = max 0 (min 1 humidity_score0);
          light_score = max 0 (min 1 light_score0);
          moisture_score = max 0 (min 1 moisture_score0);
          health_score = (humidity_score * 0.3 + light_score * 0.3 + moisture_score * 0.4) * 10
      in max 0 (min 10 health_score))"

text \<open>
  The scoring formula as the specification words it: \<open>clamp01\<close> of each closeness term,
  the weighted sum times ten, clamped again to \<open>[0, 10]\<close>.
\<close>

definition clamp :: "real \<Rightarrow> real \<Rightarrow> real \<Rightarrow> real" where
  "clamp x lo hi = max lo (min hi x)"

definition clamp01 :: "real \<Rightarrow> real" where
  "clamp01 x = clamp x 0 1"

definition score_spec :: "real \<Rightarrow> real \<Rightarrow> real \<Rightarrow> real" where
  "score_spec humidity light moisture =
     clamp (10 * (0.3 * clamp01 (1 - \<bar>humidity - 70\<bar> / 50)
                + 0.3 * clamp01 (1 - \<bar>light - 500\<bar> / 700)
                + 0.4 * clamp01 (1 - \<bar>moisture - 650\<bar> / 450))) 0 10"

subsection \<open>The rule that labels the synthetic training samples\<close>

text \<open>
  The body of the loop in \<^verbatim>\<open>create_fallback_model\<close>: the class index appended for one
  sample \<open>(h, l, m)\<close>. The index is read through \<^const>\<open>labels\<close>.
\<close>

definition training_label :: "real \<Rightarrow> real \<Rightarrow> real \<Rightarrow> nat" where
  "training_label h l m =
     (if h \<ge> 60 \<and> h \<le> 80 \<and> l \<ge> 300 \<and> l \<le> 800 \<and> m \<ge> 500 \<and> m \<le> 750 then 0
      else if m < 400 then 1
      else if l > 1000 \<or> h < 40 then 2
      else 3)"

text \<open>The loop over \<^verbatim>\<open>zip(humidity, light, moisture)\<close>.\<close>

fun training_labels :: "(real \<times> real \<times> real) list \<Rightarrow> nat list" where
  "training_labels [] = []"
| "training_labels ((h, l, m) # rest) = training_label h l m # training_labels rest"

subsection \<open>Exceptions and Python indexing\<close>

text \<open>
  The exceptions the modelled code can raise. Every one of them is a subclass of Python's
  \<^verbatim>\<open>Exception\<close>, so an \<^verbatim>\<open>except Exception\<close> clause catches each. \<open>OtherError\<close> stands
  for any further \<^verbatim>\<open>Exception\<close> raised inside a library call (scikit-learn, pickle, the
  file system).
\<close>

datatype error =
  KeyError | IndexError | ValueError | AttributeError | ImportError | OSError
  | UnpicklingError | OtherError

text \<open>
  \<^verbatim>\<open>xs[i]\<close> on a Python sequence: a negative index counts from the end, an index out of
  range raises \<^verbatim>\<open>IndexError\<close>.
\<close>

definition py_getitem :: "'a list \<Rightarrow> int \<Rightarrow> error + 'a" where
  "py_getitem xs i =
     (let n = int (length xs); j = (if i < 0 then i + n else i)
      in if j < 0 \<or> n \<le> j then Inl IndexError else Inr (xs ! nat j))"

subsection \<open>MossHealthPredictor: confidence of the heuristic fallback\<close>

record conditions =
  ideal_humidity :: real
  ideal_light :: real
  ideal_moisture :: real

text \<open>The dictionary \<^verbatim>\<open>ideal_conditions\<close>, keyed by the class index.\<close>

definition ideal_conditions :: "int \<rightharpoonup> conditions" where
  "ideal_conditions =
     [0 \<mapsto> \<lparr>ideal_humidity = 70, ideal_light = 500, ideal_moisture = 650\<rparr>,
      1 \<mapsto> \<lparr>ideal_humidity = 50, ideal_light = 400, ideal_moisture = 300\<rparr>,
      2 \<mapsto> \<lparr>ideal_humidity = 35, ideal_light = 1200, ideal_moisture = 500\<rparr>,
      3 \<mapsto> \<lparr>ideal_humidity = 45, ideal_light = 900, ideal_moisture = 400\<rparr>]"

text \<open>
  \<^verbatim>\<open>calculate_confidence\<close>. The lookup \<^verbatim>\<open>ideal_conditions[prediction]\<close> raises
  \<^verbatim>\<open>KeyError\<close> for a key that is not in the dictionary.
\<close>

definition calculate_confidence :: "real \<Rightarrow> real \<Rightarrow> real \<Rightarrow> int \<Rightarrow> error + real" where
  "calculate_confidence humidity light moisture prediction =
     (case ideal_conditions prediction of
        None \<Rightarrow> Inl KeyError
      | Some ideal \<Rightarrow>
          (let h_diff = \<bar>humidity - ideal_humidity ideal\<bar> / 100;
               l_diff = \<bar>light - ideal_light ideal\<bar> / 1500;
               m_diff = \<bar>moisture - ideal_moisture ideal\<bar> / 900;
               distance = sqrt (h_diff ^ 2 + l_diff ^ 2 + m_diff ^ 2);
               confidence = max 50 (100 - distance * 200)
           in Inr confidence))"

text \<open>
  The confidence as the specification words it: the ideal point of each label, the
  normalisation \<open>(humidity / 100, light / 1500, moisture / 900)\<close>, the Euclidean distance
  of the normalised points, and \<open>clamp (100 - distance * 200) 50 100\<close>.
\<close>

definition ideal_point :: "string \<Rightarrow> real \<times> real \<times> real" where
  "ideal_point label =
     (if label = ''Healthy'' then (70, 500, 650)
      else if label = ''Needs Water'' then (50, 400, 300)
      else if label = ''Needs Shade'' then (35, 1200, 500)
      else (45, 900, 400))"

definition normalized :: "real \<times> real \<times> real \<Rightarrow> real \<times> real \<times> real" where
  "normalized p = (case p of (h, l, m) \<Rightarrow> (h / 100, l / 1500, m / 900))"

definition euclidean :: "real \<times> real \<times> real \<Rightarrow> real \<times> real \<times> real \<Rightarrow> real" where
  "euclidean p q =
     (case p of (a, b, c) \<Rightarrow> case q of (x, y, z) \<Rightarrow>
        sqrt ((a - x) ^ 2 + (b - y) ^ 2 + (c - z) ^ 2))"

definition confidence_spec :: "real \<Rightarrow> real \<Rightarrow> real \<Rightarrow> string \<Rightarrow> real" where
  "confidence_spec humidity light moisture label =
     clamp (100 - euclidean (normalized (humidity, light, moisture))
                             (normalized (ideal_point label)) * 200) 50 100"

subsection \<open>MossHealthPredictor: prediction\<close>

text \<open>
  \<^verbatim>\<open>self.model\<close> is an object of scikit-learn or whatever \<^verbatim>\<open>pickle.load\<close> returned; the
  code only calls \<^verbatim>\<open>predict\<close> on it and, when the attribute exists, \<^verbatim>\<open>predict_proba\<close>.
  Both take the one-row matrix \<^verbatim>\<open>[[humidity, light, moisture]]\<close>, given here as the row,
  and return one entry per row or raise. \<open>predict_proba = None\<close> is a model without that
  attribute. A predicted class that is not an integer is folded into \<open>predict\<close> raising:
  indexing \<^verbatim>\<open>self.labels\<close> with it raises \<^verbatim>\<open>TypeError\<close>.
\<close>

record classifier =
  predict :: "real \<times> real \<times> real \<Rightarrow> error + int list"
  predict_proba :: "(real \<times> real \<times> real \<Rightarrow> error + real list list) option"

text \<open>\<^verbatim>\<open>np.max\<close> of a one-dimensional array; it raises \<^verbatim>\<open>ValueError\<close> on an empty one.\<close>

definition np_max :: "real list \<Rightarrow> error + real" where
  "np_max xs = (case xs of [] \<Rightarrow> Inl ValueError | y # ys \<Rightarrow> Inr (fold max ys y))"

text \<open>
  The \<^verbatim>\<open>try\<close> block of \<^verbatim>\<open>predict_health\<close>: \<open>Inl e\<close> is the exception \<open>e\<close> raised inside it.
  \<open>model = None\<close> is \<^verbatim>\<open>self.model = None\<close>, where \<^verbatim>\<open>self.model.predict\<close> raises
  \<^verbatim>\<open>AttributeError\<close>.
\<close>

definition predict_health_try ::
  "classifier option \<Rightarrow> real \<Rightarrow> real \<Rightarrow> real \<Rightarrow> error + (string \<times> real \<times> real)" where
  "predict_health_try model humidity light moisture =
     (case model of
        None \<Rightarrow> Inl AttributeError
      | Some clf \<Rightarrow>
     (case predict clf (humidity, light, moisture) of
        Inl e \<Rightarrow> Inl e
      | Inr predictions \<Rightarrow>
     (case py_getitem predictions 0 of
        Inl e \<Rightarrow> Inl e
      | Inr prediction \<Rightarrow>
     (case (case predict_proba clf of
              Some proba \<Rightarrow>
                (case proba (humidity, light, moisture) of
                   Inl e \<Rightarrow> Inl e
                 | Inr rows \<Rightarrow>
                (case py_getitem rows 0 of
                   Inl e \<Rightarrow> Inl e
                 | Inr probabilities \<Rightarrow>
                (case np_max probabilities of
                   Inl e \<Rightarrow> Inl e
                 | Inr p \<Rightarrow> Inr (p * 100))))
            | None \<Rightarrow> calculate_confidence humidity light moisture prediction) of
        Inl e \<Rightarrow> Inl e
      | Inr confidence \<Rightarrow>
     (let health_score = calculate_health_score humidity light moisture
      in case py_getitem labels prediction of
           Inl e \<Rightarrow> Inl e
         | Inr label \<Rightarrow> Inr (label, confidence, health_score))))))"

text \<open>\<^verbatim>\<open>predict_health\<close>: the \<^verbatim>\<open>except Exception\<close> clause returns the sentinel.\<close>

definition predict_health ::
  "classifier option \<Rightarrow> real \<Rightarrow> real \<Rightarrow> real \<Rightarrow> string \<times> real \<times> real" where
  "predict_health model humidity light moisture =
     (case predict_health_try model humidity light moisture of
        Inr result \<Rightarrow> result
      | Inl e \<Rightarrow> (''Unknown'', 0, 0))"

subsection \<open>MossHealthPredictor: recommendations\<close>

text \<open>
  The format specification \<^verbatim>\<open>:.0f\<close> of an f-string: the value rounded to the nearest
  integer, a tie going to the even neighbour, printed in decimal without a point, with a
  minus sign for a negative value (also when it rounds to zero).
\<close>

definition round_half_even :: "real \<Rightarrow> int" where
  "round_half_even x =
     (let f = \<lfloor>x\<rfloor>; d = x - of_int f
      in if d < 1 / 2 then f else if 1 / 2 < d then f + 1 else if even f then f else f + 1)"

fun decimal :: "nat \<Rightarrow> string" where
  "decimal n =
     (if n < 10 then [''0123456789'' ! n]
      else decimal (n div 10) @ [''0123456789'' ! (n mod 10)])"

declare decimal.simps [simp del]

definition format_0f :: "real \<Rightarrow> string" where
  "format_0f x =
     (let n = round_half_even x
      in if x < 0 then ''-'' @ decimal (nat (- n)) else decimal (nat n))"

text \<open>
  \<^verbatim>\<open>get_recommendations\<close>. \<^verbatim>\<open>sensor_data\<close> is a dictionary from field names to numbers;
  \<^verbatim>\<open>sensor_data['moisture']\<close> and \<^verbatim>\<open>sensor_data['light']\<close> raise \<^verbatim>\<open>KeyError\<close> when the
  key is missing. The function takes nothing else and draws no random number.
\<close>

definition get_recommendations :: "string \<Rightarrow> (string \<rightharpoonup> real) \<Rightarrow> error + string list" where
  "get_recommendations prediction sensor_data =
     (let recommendations = []
      in if prediction = ''Needs Water'' then
           (case sensor_data ''moisture'' of
              None \<Rightarrow> Inl KeyError
            | Some v \<Rightarrow>
                Inr (recommendations @
                  [''Activate automatic misting system'',
                   ''Check water reservoir levels'',
                   ''Verify sprinkler system functionality'',
                   ''Current moisture: '' @ format_0f v @ '' (target: 600-750)'']))
         else if prediction = ''Needs Shade'' then
           (case sensor_data ''light'' of
              None \<Rightarrow> Inl KeyError
            | Some v \<Rightarrow>
                Inr (recommendations @
                  [''Adjust building ventilation'',
                   ''Consider temporary shading solutions'',
                   ''Check air conditioning efficiency'',
                   ''Current light: '' @ format_0f v @ '' lux (optimal: 300-800)'']))
         else if prediction = ''Needs Attention'' then
           Inr (recommendations @
             [''Schedule maintenance inspection'',
              ''Check all sensor calibrations'',
              ''Examine moss growth patterns'',
              ''Review environmental control systems''])
         else
           Inr (recommendations @
             [''Continue current maintenance schedule'',
              ''Monitor sensor readings'',
              ''System operating optimally'']))"

subsection \<open>MossHealthPredictor: loading the model\<close>

text \<open>
  What \<^verbatim>\<open>moss_health_model.pkl\<close> holds: no file, a file that \<^verbatim>\<open>open\<close> or
  \<^verbatim>\<open>pickle.load\<close> rejects with an exception, or a pickled model.
\<close>

datatype stored_file = Missing | Unloadable error | Pickled classifier

text \<open>
  The part of the world \<^verbatim>\<open>load_model\<close> reads and writes: \<^verbatim>\<open>self.model\<close> and the file.
\<close>

record world =
  self_model :: "classifier option"
  model_file :: stored_file

text \<open>
  What \<^verbatim>\<open>create_fallback_model\<close> takes from its environment: whether
  \<^verbatim>\<open>from sklearn.tree import DecisionTreeClassifier\<close> succeeds, the 500 samples that the
  three \<^verbatim>\<open>np.random.uniform\<close> calls return after \<^verbatim>\<open>np.random.seed(42)\<close> (zipped),
  scikit-learn's \<^verbatim>\<open>DecisionTreeClassifier(random_state=42, max_depth=10).fit\<close>, and whether
  the file can be opened for writing and the model dumped into it.
\<close>

record environment =
  sklearn_importable :: bool
  seeded_samples :: "(real \<times> real \<times> real) list"
  fit :: "(real \<times> real \<times> real) list \<Rightarrow> nat list \<Rightarrow> classifier"
  can_write :: bool

text \<open>
  \<^verbatim>\<open>create_fallback_model\<close>: the first component is \<open>Inl e\<close> when the call raises \<open>e\<close>,
  the second is the world it leaves. \<^verbatim>\<open>self.model\<close> is assigned before the file is
  written.
\<close>

definition create_fallback_model :: "environment \<Rightarrow> world \<Rightarrow> (error + unit) \<times> world" where
  "create_fallback_model env w =
     (if \<not> sklearn_importable env then (Inl ImportError, w)
      else
        (let X = seeded_samples env;
             y = training_labels X;
             w1 = w\<lparr>self_model := Some (fit env X y)\<rparr>
         in if can_write env
            then (Inr (), w1\<lparr>model_file := Pickled (fit env X y)\<rparr>)
            else (Inl OSError, w1)))"

text \<open>
  \<^verbatim>\<open>load_model\<close>: the \<^verbatim>\<open>try\<close> block, then the \<^verbatim>\<open>except Exception\<close> clause, whose own
  call of \<^verbatim>\<open>create_fallback_model\<close> is not inside any \<^verbatim>\<open>try\<close>.
\<close>

definition load_model :: "environment \<Rightarrow> world \<Rightarrow> (error + unit) \<times> world" where
  "load_model env w =
     (case (case model_file w of
              Missing \<Rightarrow> create_fallback_model env w
            | Unloadable e \<Rightarrow> (Inl e, w)
            | Pickled clf \<Rightarrow> (Inr (), w\<lparr>self_model := Some clf\<rparr>)) of
        (Inr u, w1) \<Rightarrow> (Inr (), w1)
      | (Inl e, w1) \<Rightarrow> create_fallback_model env w1)"

subsection \<open>Random numbers and time\<close>

text \<open>
  NumPy's global generator is modelled by the sequence of the values its next calls
  return in standard form: a call takes the head and leaves the tail. \<^verbatim>\<open>normal(loc, scale)\<close>
  reads the head as a standard normal deviate, \<^verbatim>\<open>uniform(low, high)\<close> as a deviate of
  the unit interval. The sequence is arbitrary: nothing below relies on a distribution.
\<close>

type_synonym rng = "nat \<Rightarrow> real"

definition next_draw :: "rng \<Rightarrow> real \<times> rng" where
  "next_draw g = (g 0, \<lambda>n. g (Suc n))"

definition normal :: "real \<Rightarrow> real \<Rightarrow> rng \<Rightarrow> real \<times> rng" where
  "normal loc scale g = (case next_draw g of (z, g') \<Rightarrow> (loc + scale * z, g'))"

definition uniform :: "real \<Rightarrow> real \<Rightarrow> rng \<Rightarrow> real \<times> rng" where
  "uniform low high g = (case next_draw g of (u, g') \<Rightarrow> (low + (high - low) * u, g'))"

text \<open>
  A naive \<^verbatim>\<open>datetime\<close> is its number of microseconds on the proleptic calendar;
  \<^verbatim>\<open>datetime.now()\<close> is a parameter \<open>now\<close> of the functions that read the clock.
\<close>

type_synonym datetime = int

definition hour :: "datetime \<Rightarrow> int" where
  "hour t = (t div 3600000000) mod 24"

definition timedelta_hours :: "int \<Rightarrow> int" where
  "timedelta_hours h = h * 3600000000"

definition minutes_15 :: int where
  "minutes_15 = 900000000"

text \<open>
  \<^verbatim>\<open>pd.date_range(start, end, freq)\<close> for a fixed positive tick: \<open>start\<close>,
  \<open>start + freq\<close>, ... as long as the value does not pass \<open>end\<close>.
\<close>

function date_range :: "datetime \<Rightarrow> datetime \<Rightarrow> int \<Rightarrow> datetime list" where
  "date_range start stop freq =
     (if freq \<le> 0 \<or> stop < start then []
      else start # date_range (start + freq) stop freq)"
  by pat_completeness auto
termination
  by (relation "measure (\<lambda>(start, stop, freq). nat (stop - start + 1))") auto

declare date_range.simps [simp del]

subsection \<open>SensorSimulator\<close>

record measurement =
  timestamp :: datetime
  humidity :: real
  light :: real
  moisture :: real
  co2 :: real
  temperature :: real

record reading = measurement +
  location :: string
  co2_absorption :: real

record base_values =
  base_humidity :: real
  base_light :: real
  base_moisture :: real
  base_co2 :: real
  base_temperature :: real

record sensor_simulator =
  base_values :: base_values
  last_update :: real

text \<open>\<^verbatim>\<open>SensorSimulator.__init__\<close>; \<open>t\<close> is what \<^verbatim>\<open>time.time()\<close> returns.\<close>

definition SensorSimulator_init :: "real \<Rightarrow> sensor_simulator" where
  "SensorSimulator_init t =
     \<lparr>base_values = \<lparr>base_humidity = 65, base_light = 500, base_moisture = 600,
                      base_co2 = 400, base_temperature = 22\<rparr>,
      last_update = t\<rparr>"

record factor =
  factor_humidity :: real
  factor_light :: real
  factor_moisture :: real

definition location_factors :: "string \<rightharpoonup> factor" where
  "location_factors = map_of
     [(''Building A - Lobby'',
         \<lparr>factor_humidity = 0, factor_light = 0.8, factor_moisture = 0\<rparr>),
      (''Building B - Facade'',
         \<lparr>factor_humidity = 0.1, factor_light = 1.2, factor_moisture = - 0.1\<rparr>),
      (''Highway Wall - Section 1'',
         \<lparr>factor_humidity = - 0.1, factor_light = 1.5, factor_moisture = - 0.2\<rparr>),
      (''University Campus - Library'',
         \<lparr>factor_humidity = 0.05, factor_light = 0.6, factor_moisture = 0.1\<rparr>),
      (''Corporate HQ - Conference Room'',
         \<lparr>factor_humidity = - 0.05, factor_light = 0.7, factor_moisture = 0.05\<rparr>)]"

text \<open>
  \<^verbatim>\<open>get_current_readings\<close>. The five draws happen in the order of the dictionary
  literal, the sixth for \<^verbatim>\<open>co2_absorption\<close>. The result is the reading and the generator
  left for later calls.
\<close>

definition get_current_readings ::
  "sensor_simulator \<Rightarrow> string \<Rightarrow> datetime \<Rightarrow> rng \<Rightarrow> reading \<times> rng" where
  "get_current_readings self loc now g0 =
     (let current_time = now;
          time_factor = sin (real_of_int (hour current_time) * pi / 12);
          fac = (case location_factors loc of
                   Some f \<Rightarrow> f
                 | None \<Rightarrow> \<lparr>factor_humidity = 0, factor_light = 1, factor_moisture = 0\<rparr>);
          (n1, g1) = normal 0 5 g0;
          hum = max 20 (min 95 (base_humidity (base_values self)
                  + n1 + time_factor * 10 + factor_humidity fac * 20));
          (n2, g2) = normal 0 50 g1;
          lig = max 50 (min 1500 (base_light (base_values self)
                  + n2 + time_factor * 300 * factor_light fac));
          (n3, g3) = normal 0 30 g2;
          moi = max 200 (min 900 (base_moisture (base_values self)
                  + n3 + factor_moisture fac * 100));
          (n4, g4) = normal 0 20 g3;
          co = max 300 (min 600 (base_co2 (base_values self) + n4 - time_factor * 50));
          (n5, g5) = normal 0 2 g4;
          tem = max 15 (min 35 (base_temperature (base_values self) + n5 + time_factor * 5));
          moss_efficiency = min 1 (hum / 100 * moi / 700);
          (u, g6) = uniform 15 25 g5
      in (\<lparr>timestamp = current_time, humidity = hum, light = lig, moisture = moi,
            co2 = co, temperature = tem, location = loc,
            co2_absorption = moss_efficiency * u\<rparr>, g6))"

subsection \<open>HistoricalDataGenerator\<close>

record historical_data_generator =
  hours_back :: int

definition HistoricalDataGenerator_init :: historical_data_generator where
  "HistoricalDataGenerator_init = \<lparr>hours_back = 24\<rparr>"

text \<open>The body of the loop of \<^verbatim>\<open>generate_historical_data\<close> for one timestamp.\<close>

definition generate_row :: "datetime \<Rightarrow> rng \<Rightarrow> measurement \<times> rng" where
  "generate_row ts g0 =
     (let hr = hour ts;
          time_factor = sin (real_of_int hr * pi / 12);
          (n1, g1) = normal 0 8 g0;
          hum0 = 65 + n1 + time_factor * 15;
          (n2, g2) = normal 0 100 g1;
          lig0 = 500 + n2 + time_factor * 400;
          (n3, g3) = normal 0 50 g2;
          (u3, g4) = uniform (- 20) 20 g3;
          moi0 = 600 + n3 + u3;
          (n4, g5) = normal 0 30 g4;
          co0 = 400 + n4 - time_factor * 80;
          (n5, g6) = normal 0 3 g5;
          tem0 = 22 + n5 + time_factor * 6;
          (moi1, hum1, g8) =
            (if hr \<in> set [6, 18]
             then (let (u6, g7) = uniform 50 100 g6;
                       (u7, g8) = uniform 10 20 g7
                   in (moi0 + u6, hum0 + u7, g8))
             else (moi0, hum0, g6));
          (lig1, tem1, g10) =
            (if hr \<in> set [12, 13, 14]
             then (let (u8, g9) = uniform 1.2 1.8 g8;
                       (u9, g10) = uniform 2 5 g9
                   in (lig0 * u8, tem0 + u9, g10))
             else (lig0, tem0, g8))
      in (\<lparr>timestamp = ts,
            humidity = max 20 (min 95 hum1),
            light = max 50 (min 1500 lig1),
            moisture = max 200 (min 900 moi1),
            co2 = max 300 (min 600 co0),
            temperature = max 15 (min 35 tem1)\<rparr>, g10))"

text \<open>The loop: one row per timestamp, the generator threaded through.\<close>

fun generate_rows :: "datetime list \<Rightarrow> rng \<Rightarrow> measurement list \<times> rng" where
  "generate_rows [] g = ([], g)"
| "generate_rows (ts # rest) g =
     (case generate_row ts g of (row, g1) \<Rightarrow>
        case generate_rows rest g1 of (rows, g2) \<Rightarrow> (row # rows, g2))"

definition generate_historical_data ::
  "historical_data_generator \<Rightarrow> datetime \<Rightarrow> rng \<Rightarrow> measurement list \<times> rng" where
  "generate_historical_data self now g =
     (let end_time = now;
          start_time = end_time - timedelta_hours (hours_back self);
          timestamps = date_range start_time end_time minutes_15
      in generate_rows timestamps g)"

subsection \<open>The declared range of each channel\<close>

text \<open>
  The clamp bounds of the five channels, for a reading of the simulator and for a row of
  the historical series alike.
\<close>

definition within_bounds :: "'a measurement_scheme \<Rightarrow> bool" where
  "within_bounds r \<longleftrightarrow>
     20 \<le> humidity r \<and> humidity r \<le> 95
     \<and> 50 \<le> light r \<and> light r \<le> 1500
     \<and> 200 \<le> moisture r \<and> moisture r \<le> 900
     \<and> 300 \<le> co2 r \<and> co2 r \<le> 600
     \<and> 15 \<le> temperature r \<and> temperature r \<le> 35"

section \<open>Properties\<close>

subsection \<open>Health score\<close>

lemma calculate_health_score_spec:
  "calculate_health_score h l m = score_spec h l m"
proof -
  have "(a * 0.3 + b * 0.3 + c * 0.4) * 10 = 10 * (0.3 * a + 0.3 * b + 0.4 * c)"
    for a b c :: real
    by (simp add: algebra_simps)
  then show ?thesis
    unfolding calculate_health_score_def score_spec_def clamp01_def clamp_def Let_def
    by (simp only:)
qed

lemma calculate_health_score_range:
  "0 \<le> calculate_health_score h l m \<and> calculate_health_score h l m \<le> 10"
  unfolding calculate_health_score_def Let_def
  by (simp only: max.cobounded1 min.cobounded1 max.bounded_iff) simp

lemma calculate_health_score_optimum:
  "calculate_health_score 70 500 650 = 10"
  by (simp add: calculate_health_score_def Let_def)

text \<open>
  Claim C2. For all real inputs the score computed by \<^const>\<open>calculate_health_score\<close> is the
  specification's formula \<^const>\<open>score_spec\<close> (ten times the weighted sum of the three
  clamped closeness terms, clamped again to \<open>[0, 10]\<close>); the result lies in \<open>[0, 10]\<close>,
  and the input \<open>(70, 500, 650)\<close> gives 10, which no input exceeds.
\<close>

theorem health_score_formula_and_range:
  "calculate_health_score h l m = score_spec h l m
   \<and> 0 \<le> calculate_health_score h l m
   \<and> calculate_health_score h l m \<le> 10
   \<and> calculate_health_score 70 500 650 = 10
   \<and> calculate_health_score h l m \<le> calculate_health_score 70 500 650"
  using calculate_health_score_spec [of h l m] calculate_health_score_range [of h l m]
    calculate_health_score_optimum
  by simp

theorem health_score_formula_and_range_witness:
  "calculate_health_score 20 50 200 = score_spec 20 50 200
   \<and> calculate_health_score 20 50 200 = 15 / 14
   \<and> calculate_health_score 70 500 650 = 10"
  using health_score_formula_and_range [of 20 50 200]
  by (simp add: calculate_health_score_def Let_def)

subsection \<open>Training-label rule\<close>

text \<open>
  Claim C4. The training-label rule gives Healthy exactly when humidity is in \<open>[60, 80]\<close>,
  light in \<open>[300, 800]\<close> and moisture in \<open>[500, 750]\<close>; failing that, Needs Water exactly
  when moisture is below 400; failing that, Needs Shade exactly when light exceeds 1000 or
  humidity is below 40; and Needs Attention in every remaining case. The samples
  \<open>(70, 500, 650)\<close>, \<open>(70, 500, 300)\<close> and \<open>(30, 1200, 600)\<close> are labelled Healthy,
  Needs Water and Needs Shade.
\<close>

theorem training_label_rule:
  "(labels ! training_label h l m = ''Healthy'' \<longleftrightarrow>
      (60 \<le> h \<and> h \<le> 80 \<and> 300 \<le> l \<and> l \<le> 800 \<and> 500 \<le> m \<and> m \<le> 750))
   \<and> (labels ! training_label h l m = ''Needs Water'' \<longleftrightarrow>
      (\<not> (60 \<le> h \<and> h \<le> 80 \<and> 300 \<le> l \<and> l \<le> 800 \<and> 500 \<le> m \<and> m \<le> 750) \<and> m < 400))
   \<and> (labels ! training_label h l m = ''Needs Shade'' \<longleftrightarrow>
      (\<not> (60 \<le> h \<and> h \<le> 80 \<and> 300 \<le> l \<and> l \<le> 800 \<and> 500 \<le> m \<and> m \<le> 750) \<and> \<not> m < 400
       \<and> (1000 < l \<or> h < 40)))
   \<and> (labels ! training_label h l m = ''Needs Attention'' \<longleftrightarrow>
      (\<not> (60 \<le> h \<and> h \<le> 80 \<and> 300 \<le> l \<and> l \<le> 800 \<and> 500 \<le> m \<and> m \<le> 750) \<and> \<not> m < 400
       \<and> \<not> (1000 < l \<or> h < 40)))
   \<and> training_label h l m < length labels
   \<and> labels ! training_label 70 500 650 = ''Healthy''
   \<and> labels ! training_label 70 500 300 = ''Needs Water''
   \<and> labels ! training_label 30 1200 600 = ''Needs Shade''"
  by (simp add: training_label_def labels_def)

theorem training_label_rule_witness:
  "labels ! training_label 45 900 400 = ''Needs Attention''
   \<and> labels ! training_label 70 500 650 = ''Healthy''
   \<and> training_labels [(70, 500, 300), (30, 1200, 600)] = [1, 2]"
  using training_label_rule [of 45 900 400]
  by (simp add: training_label_def labels_def)

subsection \<open>Fallback confidence\<close>

lemma normalized_diff:
  "(\<bar>a - b\<bar> / c) ^ 2 = (a / c - b / c) ^ 2" for a b c :: real
  by (simp add: power_divide diff_divide_distrib [symmetric])

lemma confidence_clamped:
  "0 \<le> d \<Longrightarrow> max 50 (100 - d * 200) = clamp (100 - d * 200) 50 100" for d :: real
  by (simp add: clamp_def)

lemma calculate_confidence_spec:
  assumes "k < length labels"
  shows "calculate_confidence h l m (int k) = Inr (confidence_spec h l m (labels ! k))"
proof -
  from assms have "k = 0 \<or> k = 1 \<or> k = 2 \<or> k = 3"
    by (auto simp: labels_def)
  then show ?thesis
    by (elim disjE)
      (simp_all add: calculate_confidence_def ideal_conditions_def confidence_spec_def
        ideal_point_def normalized_def euclidean_def labels_def Let_def normalized_diff
        confidence_clamped)
qed

lemma confidence_spec_range:
  "50 \<le> confidence_spec h l m label \<and> confidence_spec h l m label \<le> 100"
  by (simp add: confidence_spec_def clamp_def)

text \<open>
  Claim C6. For every input triple and each of the four class indices, the fallback
  confidence of \<^const>\<open>calculate_confidence\<close> is \<open>clamp (100 - distance * 200) 50 100\<close>,
  where \<open>distance\<close> is the Euclidean distance between the input and the ideal point of
  that index's label, both normalised by \<open>(100, 1500, 900)\<close>; the result lies in
  \<open>[50, 100]\<close>.
\<close>

theorem confidence_formula_and_range:
  assumes "k < length labels"
  shows "\<exists>c. calculate_confidence h l m (int k) = Inr c
           \<and> c = confidence_spec h l m (labels ! k) \<and> 50 \<le> c \<and> c \<le> 100"
  using calculate_confidence_spec [OF assms, of h l m] confidence_spec_range [of h l m "labels ! k"]
  by simp

theorem confidence_formula_and_range_witness:
  "(2::nat) < length labels
   \<and> calculate_confidence 35 1200 500 2 = Inr 100
   \<and> confidence_spec 35 1200 500 ''Needs Shade'' = 100
   \<and> calculate_confidence 35 0 500 2 = Inr 50"
proof -
  have k: "(2::nat) < length labels" by (simp add: labels_def)
  have "calculate_confidence 35 0 500 2 = Inr 50"
    by (simp add: calculate_confidence_def ideal_conditions_def Let_def real_sqrt_divide)
  with k confidence_formula_and_range [OF k, of 35 1200 500] show ?thesis
    by (simp add: labels_def confidence_spec_def clamp_def ideal_point_def normalized_def euclidean_def)
qed

subsection \<open>Containment of prediction errors\<close>

lemma py_getitem_in_set: "py_getitem xs i = Inr x \<Longrightarrow> x \<in> set xs"
  by (auto simp: py_getitem_def Let_def split: if_splits)

lemma predict_health_try_label:
  assumes "predict_health_try model h l m = Inr r"
  shows "fst r \<in> set labels"
proof -
  from assms obtain prediction where "py_getitem labels prediction = Inr (fst r)"
    by (auto simp: predict_health_try_def Let_def split: option.splits sum.splits)
  then show ?thesis by (rule py_getitem_in_set)
qed

text \<open>
  Claim C1. \<^const>\<open>predict_health\<close> returns a result for every model and input: when the
  \<^verbatim>\<open>try\<close> block raises, whatever the exception, the result is exactly the sentinel
  \<open>(''Unknown'', 0, 0)\<close>; when it does not, the result is what the block computed and its
  label is one of the four enumerated labels.
\<close>

theorem predict_health_contained:
  "(\<forall>e. predict_health_try model h l m = Inl e \<longrightarrow>
        predict_health model h l m = (''Unknown'', 0, 0))
   \<and> (\<forall>r. predict_health_try model h l m = Inr r \<longrightarrow>
        predict_health model h l m = r
        \<and> fst r \<in> {''Healthy'', ''Needs Water'', ''Needs Shade'', ''Needs Attention''})
   \<and> (predict_health model h l m = (''Unknown'', 0, 0)
        \<or> fst (predict_health model h l m)
            \<in> {''Healthy'', ''Needs Water'', ''Needs Shade'', ''Needs Attention''})"
proof -
  have "fst r \<in> {''Healthy'', ''Needs Water'', ''Needs Shade'', ''Needs Attention''}"
    if "predict_health_try model h l m = Inr r" for r
    using predict_health_try_label [OF that] by (simp add: labels_def)
  then show ?thesis
    by (cases "predict_health_try model h l m") (simp_all add: predict_health_def)
qed

theorem predict_health_contained_witness:
  "predict_health_try None 70 500 650 = Inl AttributeError
   \<and> predict_health None 70 500 650 = (''Unknown'', 0, 0)
   \<and> predict_health_try (Some \<lparr>predict = \<lambda>x. Inr [3], predict_proba = None\<rparr>) 45 900 400
       = Inr (''Needs Attention'', 100, calculate_health_score 45 900 400)
   \<and> predict_health (Some \<lparr>predict = \<lambda>x. Inr [3], predict_proba = None\<rparr>) 45 900 400
       = (''Needs Attention'', 100, calculate_health_score 45 900 400)
   \<and> predict_health (Some \<lparr>predict = \<lambda>x. Inr [1],
        predict_proba = Some (\<lambda>x. Inr [[1 / 4, 3 / 4, 0, 0]])\<rparr>) 70 500 650
       = (''Needs Water'', 75, calculate_health_score 70 500 650)
   \<and> predict_health (Some \<lparr>predict = \<lambda>x. Inr [4], predict_proba = None\<rparr>) 70 500 650
       = (''Unknown'', 0, 0)
   \<and> predict_health (Some \<lparr>predict = \<lambda>x. Inl ValueError, predict_proba = None\<rparr>) 70 500 650
       = (''Unknown'', 0, 0)"
  using predict_health_contained [of None 70 500 650]
    predict_health_contained [of "Some \<lparr>predict = \<lambda>x. Inr [3], predict_proba = None\<rparr>" 45 900 400]
  by (simp add: predict_health_def predict_health_try_def py_getitem_def np_max_def
      calculate_confidence_def ideal_conditions_def labels_def Let_def)

subsection \<open>Recommendations\<close>

lemma decimal_350: "decimal 350 = ''350''"
  by (simp add: decimal.simps [of 350] decimal.simps [of 35] decimal.simps [of 3])

lemma format_0f_350: "format_0f 350 = ''350''"
  by (simp add: format_0f_def round_half_even_def decimal_350)

lemma decimal_1200: "decimal 1200 = ''1200''"
  by (simp add: decimal.simps [of 1200] decimal.simps [of 120] decimal.simps [of 12]
      decimal.simps [of "Suc 0"])

lemma format_0f_1200: "format_0f 1200 = ''1200''"
  by (simp add: format_0f_def round_half_even_def decimal_1200)

lemma format_0f_tie_to_even: "format_0f (5 / 2) = ''2''"
  by (simp add: format_0f_def round_half_even_def decimal.simps [of 2])

lemma format_0f_negative_zero: "format_0f (- 2 / 5) = ''-0''"
  by (simp add: format_0f_def round_half_even_def decimal.simps [of 0])

text \<open>
  Claim C8. \<^const>\<open>get_recommendations\<close> is a function of the label and the sensor data
  alone. For every label, given sensor data that carries the field the label's message
  reads, it returns three or four strings; for Needs Water and Needs Shade the last string
  interpolates the current moisture, respectively light, formatted with \<^verbatim>\<open>:.0f\<close>. For
  Needs Water and \<open>{moisture: 350}\<close> a returned string contains \<open>350\<close>.
\<close>

theorem recommendations_lookup:
  assumes "prediction = ''Needs Water'' \<Longrightarrow> sensor_data ''moisture'' = Some mv"
    and "prediction = ''Needs Shade'' \<Longrightarrow> sensor_data ''light'' = Some lv"
  shows "(\<exists>recs. get_recommendations prediction sensor_data = Inr recs
            \<and> 3 \<le> length recs \<and> length recs \<le> 4
            \<and> (prediction = ''Needs Water'' \<longrightarrow>
                 last recs = ''Current moisture: '' @ format_0f mv @ '' (target: 600-750)'')
            \<and> (prediction = ''Needs Shade'' \<longrightarrow>
                 last recs = ''Current light: '' @ format_0f lv @ '' lux (optimal: 300-800)''))
         \<and> (\<exists>recs. get_recommendations ''Needs Water'' [''moisture'' \<mapsto> 350] = Inr recs
            \<and> (\<exists>r \<in> set recs. sublist ''350'' r))"
proof -
  have "sublist ''350'' (''Current moisture: '' @ ''350'' @ '' (target: 600-750)'')"
    unfolding sublist_def by blast
  then have "\<exists>recs. get_recommendations ''Needs Water'' [''moisture'' \<mapsto> 350] = Inr recs
            \<and> (\<exists>r \<in> set recs. sublist ''350'' r)"
    by (simp add: get_recommendations_def format_0f_350)
  moreover have "\<exists>recs. get_recommendations prediction sensor_data = Inr recs
            \<and> 3 \<le> length recs \<and> length recs \<le> 4
            \<and> (prediction = ''Needs Water'' \<longrightarrow>
                 last recs = ''Current moisture: '' @ format_0f mv @ '' (target: 600-750)'')
            \<and> (prediction = ''Needs Shade'' \<longrightarrow>
                 last recs = ''Current light: '' @ format_0f lv @ '' lux (optimal: 300-800)'')"
    using assms by (simp add: get_recommendations_def)
  ultimately show ?thesis by blast
qed

theorem recommendations_lookup_witness:
  "get_recommendations ''Needs Shade'' [''light'' \<mapsto> 1200]
     = Inr [''Adjust building ventilation'', ''Consider temporary shading solutions'',
            ''Check air conditioning efficiency'',
            ''Current light: 1200 lux (optimal: 300-800)'']
   \<and> get_recommendations ''Needs Water'' [''moisture'' \<mapsto> 350]
     = Inr [''Activate automatic misting system'', ''Check water reservoir levels'',
            ''Verify sprinkler system functionality'',
            ''Current moisture: 350 (target: 600-750)'']
   \<and> get_recommendations ''Needs Shade'' [''moisture'' \<mapsto> 350] = Inl KeyError"
  using recommendations_lookup [of "''Needs Shade''" "[''light'' \<mapsto> 1200]" 0 1200]
  by (simp add: get_recommendations_def format_0f_350 format_0f_1200)

text \<open>
  Claim C10. For every label other than Needs Water, Needs Shade and Needs Attention,
  the sentinel Unknown included, \<^const>\<open>get_recommendations\<close> returns exactly the three
  strings of the Healthy branch; so the label of a failed prediction gets the
  recommendations of a Healthy one.
\<close>

theorem other_labels_get_healthy_advice:
  assumes "prediction \<notin> {''Needs Water'', ''Needs Shade'', ''Needs Attention''}"
  shows "get_recommendations prediction sensor_data
           = Inr [''Continue current maintenance schedule'', ''Monitor sensor readings'',
                  ''System operating optimally'']
         \<and> get_recommendations prediction sensor_data
           = get_recommendations ''Healthy'' sensor_data
         \<and> get_recommendations ''Unknown'' sensor_data
           = get_recommendations ''Healthy'' sensor_data
         \<and> (\<forall>e. predict_health_try clf h l m = Inl e \<longrightarrow>
              get_recommendations (fst (predict_health clf h l m)) sensor_data
                = get_recommendations ''Healthy'' sensor_data)"
  using assms by (simp add: get_recommendations_def predict_health_def)

theorem other_labels_get_healthy_advice_witness:
  "''Unknown'' \<notin> {''Needs Water'', ''Needs Shade'', ''Needs Attention''}
   \<and> get_recommendations ''Unknown'' Map.empty
       = Inr [''Continue current maintenance schedule'', ''Monitor sensor readings'',
              ''System operating optimally'']
   \<and> get_recommendations (fst (predict_health None 70 500 650)) Map.empty
       = get_recommendations ''Healthy'' Map.empty"
  using other_labels_get_healthy_advice [of "''Unknown''" Map.empty None 70 500 650]
  by (simp add: predict_health_def predict_health_try_def get_recommendations_def)

subsection \<open>Loading the model\<close>

lemma create_fallback_model_succeeds:
  assumes "sklearn_importable env" and "can_write env"
  shows "create_fallback_model env w =
           (Inr (), w\<lparr>self_model := Some (fit env (seeded_samples env)
                                          (training_labels (seeded_samples env))),
                      model_file := Pickled (fit env (seeded_samples env)
                                          (training_labels (seeded_samples env)))\<rparr>)"
  using assms by (simp add: create_fallback_model_def Let_def)

lemma load_model_loads_pickled:
  "model_file w = Pickled clf \<Longrightarrow> load_model env w = (Inr (), w\<lparr>self_model := Some clf\<rparr>)"
  by (simp add: load_model_def)

text \<open>
  With no model file and a directory that cannot be written, the \<^verbatim>\<open>try\<close> block's call of
  \<^verbatim>\<open>create_fallback_model\<close> raises at \<^verbatim>\<open>open(..., "wb")\<close>, the handler calls it again,
  and the second \<^verbatim>\<open>OSError\<close> leaves \<^verbatim>\<open>load_model\<close>.
\<close>

theorem load_model_raises_counterexample:
  "fst (load_model
         \<lparr>sklearn_importable = True, seeded_samples = [(70, 500, 650)],
          fit = (\<lambda>X y. \<lparr>predict = (\<lambda>x. Inr [0]), predict_proba = None\<rparr>),
          can_write = False\<rparr>
         \<lparr>self_model = None, model_file = Missing\<rparr>) = Inl OSError"
  by (simp add: load_model_def create_fallback_model_def Let_def)

text \<open>
  Claim C7, amended. For every load failure (the file is missing, or opening or unpickling
  it raises), what \<^const>\<open>load_model\<close> returns is what a call of
  \<^const>\<open>create_fallback_model\<close> returns; when the fallback itself can run (scikit-learn
  can be imported and the model file can be written), \<^const>\<open>load_model\<close> completes without
  an exception, with the model trained on the synthetic samples installed and saved.
\<close>

theorem load_failure_runs_fallback:
  assumes "\<forall>clf. model_file w \<noteq> Pickled clf"
  shows "(\<exists>w'. load_model env w = create_fallback_model env w')
         \<and> (sklearn_importable env \<and> can_write env \<longrightarrow>
              fst (load_model env w) = Inr ()
              \<and> self_model (snd (load_model env w))
                  = Some (fit env (seeded_samples env) (training_labels (seeded_samples env)))
              \<and> model_file (snd (load_model env w))
                  = Pickled (fit env (seeded_samples env) (training_labels (seeded_samples env))))"
proof (cases "model_file w")
  case Missing
  show ?thesis
  proof (cases "fst (create_fallback_model env w)")
    case (Inl e)
    then have "load_model env w = create_fallback_model env (snd (create_fallback_model env w))"
      using Missing by (cases "create_fallback_model env w") (simp add: load_model_def)
    then show ?thesis
      by (auto simp: create_fallback_model_succeeds)
  next
    case (Inr u)
    then have "load_model env w = create_fallback_model env w"
      using Missing by (cases "create_fallback_model env w") (simp add: load_model_def)
    then show ?thesis
      by (auto simp: create_fallback_model_succeeds)
  qed
next
  case (Unloadable e)
  then have "load_model env w = create_fallback_model env w"
    by (simp add: load_model_def)
  then show ?thesis
    by (auto simp: create_fallback_model_succeeds)
next
  case (Pickled clf)
  with assms show ?thesis by simp
qed

theorem load_failure_runs_fallback_witness:
  "load_model
     \<lparr>sklearn_importable = True, seeded_samples = [(70, 500, 650)],
      fit = (\<lambda>X y. \<lparr>predict = (\<lambda>x. Inr (map int y)), predict_proba = None\<rparr>),
      can_write = True\<rparr>
     \<lparr>self_model = None, model_file = Unloadable UnpicklingError\<rparr>
   = (Inr (),
      \<lparr>self_model = Some \<lparr>predict = (\<lambda>x. Inr [0]), predict_proba = None\<rparr>,
       model_file = Pickled \<lparr>predict = (\<lambda>x. Inr [0]), predict_proba = None\<rparr>\<rparr>)"
  using load_failure_runs_fallback [of
      "\<lparr>self_model = None, model_file = Unloadable UnpicklingError\<rparr>"
      "\<lparr>sklearn_importable = True, seeded_samples = [(70, 500, 650)],
        fit = (\<lambda>X y. \<lparr>predict = (\<lambda>x. Inr (map int y)), predict_proba = None\<rparr>),
        can_write = True\<rparr>"]
  by (simp add: load_model_def create_fallback_model_def Let_def training_label_def)

subsection \<open>Generated readings\<close>

lemma within_bounds_row:
  "within_bounds
     \<lparr>timestamp = t, humidity = max 20 (min 95 a), light = max 50 (min 1500 b),
      moisture = max 200 (min 900 c), co2 = max 300 (min 600 d),
      temperature = max 15 (min 35 e)\<rparr>"
  by (simp add: within_bounds_def)

lemma within_bounds_reading:
  "within_bounds
     \<lparr>timestamp = t, humidity = max 20 (min 95 a), light = max 50 (min 1500 b),
      moisture = max 200 (min 900 c), co2 = max 300 (min 600 d),
      temperature = max 15 (min 35 e), location = loc, co2_absorption = f\<rparr>"
  by (simp add: within_bounds_def)

lemma generate_row_bounds: "within_bounds (fst (generate_row ts g))"
  unfolding generate_row_def Let_def split_beta fst_conv
  by (rule within_bounds_row)

lemma get_current_readings_bounds:
  "within_bounds (fst (get_current_readings self loc now g))"
  unfolding get_current_readings_def Let_def split_beta fst_conv
  by (rule within_bounds_reading)

lemma generate_row_timestamp: "timestamp (fst (generate_row ts g)) = ts"
  unfolding generate_row_def Let_def split_beta fst_conv
  by (rule measurement.select_convs)

lemma generate_rows_bounds:
  "r \<in> set (fst (generate_rows tss g)) \<Longrightarrow> within_bounds r"
proof (induction tss arbitrary: g)
  case Nil
  then show ?case by simp
next
  case (Cons ts rest)
  then show ?case
    using generate_row_bounds [of ts g]
    by (auto simp: split_beta)
qed

lemma generate_rows_timestamps:
  "map timestamp (fst (generate_rows tss g)) = tss"
  by (induction tss arbitrary: g) (simp_all add: split_beta generate_row_timestamp)

lemma date_range_single: "0 < freq \<Longrightarrow> date_range start start freq = [start]"
  by (simp add: date_range.simps [of start start freq] date_range.simps [of "start + freq" start freq])

lemma date_range_steps:
  "0 < freq \<Longrightarrow>
     date_range start (start + int n * freq) freq = map (\<lambda>k. start + int k * freq) [0..<Suc n]"
proof (induction n arbitrary: start)
  case 0
  then show ?case by (simp add: date_range_single)
next
  case (Suc n)
  have stop: "start + int (Suc n) * freq = (start + freq) + int n * freq"
    by (simp add: algebra_simps)
  have "0 \<le> int n * freq"
    using Suc.prems by simp
  then have "\<not> (freq \<le> 0 \<or> (start + freq) + int n * freq < start)"
    using Suc.prems by linarith
  then have "date_range start (start + int (Suc n) * freq) freq
      = start # date_range (start + freq) ((start + freq) + int n * freq) freq"
    unfolding stop by (subst date_range.simps) (simp only: if_False)
  also have "\<dots> = start # map (\<lambda>k. (start + freq) + int k * freq) [0..<Suc n]"
    using Suc.IH [OF Suc.prems, of "start + freq"] by simp
  also have "\<dots> = map (\<lambda>k. start + int k * freq) [0..<Suc (Suc n)]"
    by (simp only: upt_conv_Cons [of 0 "Suc (Suc n)"] map_Suc_upt [symmetric] list.map)
       (simp add: algebra_simps)
  finally show ?case .
qed


lemma historical_timestamps:
  "map timestamp (fst (generate_historical_data HistoricalDataGenerator_init now g))
     = map (\<lambda>k. now - timedelta_hours 24 + int k * minutes_15) [0..<97]"
proof -
  have "now = (now - timedelta_hours 24) + int 96 * minutes_15"
    by (simp add: timedelta_hours_def minutes_15_def)
  then have "date_range (now - timedelta_hours 24) now minutes_15
      = map (\<lambda>k. now - timedelta_hours 24 + int k * minutes_15) [0..<Suc 96]"
    using date_range_steps [of minutes_15 "now - timedelta_hours 24" 96]
    by (simp add: minutes_15_def)
  then show ?thesis
    by (simp add: generate_historical_data_def HistoricalDataGenerator_init_def Let_def
        generate_rows_timestamps)
qed

lemma historical_length:
  "length (fst (generate_historical_data HistoricalDataGenerator_init now g)) = 97"
  using arg_cong [OF historical_timestamps [of now g], of length] by simp

text \<open>
  Claim C3. The reading of \<^const>\<open>get_current_readings\<close>, for every simulator, location,
  instant and generator state, and every row of \<^const>\<open>generate_historical_data\<close> have
  humidity in \<open>[20, 95]\<close>, light in \<open>[50, 1500]\<close>, moisture in \<open>[200, 900]\<close>, co2 in
  \<open>[300, 600]\<close> and temperature in \<open>[15, 35]\<close>: each channel is clamped after the noise
  and the events are added.
\<close>

theorem generated_readings_within_bounds:
  "within_bounds (fst (get_current_readings sim loc now g))
   \<and> (\<forall>r \<in> set (fst (generate_historical_data gen now g)). within_bounds r)"
  using get_current_readings_bounds [of sim loc now g]
  by (auto simp: generate_historical_data_def Let_def dest: generate_rows_bounds)

theorem generated_readings_within_bounds_witness:
  "humidity (fst (get_current_readings (SensorSimulator_init 0) ''Highway Wall - Section 1'' 0
       (\<lambda>n. 1000))) = 95
   \<and> within_bounds (fst (get_current_readings (SensorSimulator_init 0)
       ''Highway Wall - Section 1'' 0 (\<lambda>n. 1000)))
   \<and> fst (generate_historical_data HistoricalDataGenerator_init 0 (\<lambda>n. 1000)) \<noteq> []
   \<and> within_bounds (hd (fst (generate_historical_data HistoricalDataGenerator_init 0
       (\<lambda>n. 1000))))"
proof -
  let ?rows = "fst (generate_historical_data HistoricalDataGenerator_init 0 (\<lambda>n. 1000))"
  have ne: "?rows \<noteq> []"
    using historical_length [of 0 "\<lambda>n. 1000"] by auto
  then have "hd ?rows \<in> set ?rows"
    by simp
  moreover have "humidity (fst (get_current_readings (SensorSimulator_init 0)
      ''Highway Wall - Section 1'' 0 (\<lambda>n. 1000))) = 95"
    by (simp add: get_current_readings_def SensorSimulator_init_def location_factors_def
        normal_def uniform_def next_draw_def hour_def Let_def)
  ultimately show ?thesis
    using ne generated_readings_within_bounds [of "SensorSimulator_init 0"
        "''Highway Wall - Section 1''" 0 "\<lambda>n. 1000" HistoricalDataGenerator_init]
    by simp
qed

text \<open>
  Claim C5. For every instant \<open>now\<close> and every generator state, the historical series has
  97 rows; their timestamps are \<open>now - 24h + k * 15min\<close> for \<open>k = 0, ..., 96\<close>, so the
  first is \<open>now - 24h\<close>, the last is \<open>now\<close>, they increase and consecutive ones are
  15 minutes apart; the length is the same for any two generator states.
\<close>

theorem historical_series_shape:
  "length (fst (generate_historical_data HistoricalDataGenerator_init now g)) = 97
   \<and> map timestamp (fst (generate_historical_data HistoricalDataGenerator_init now g))
       = map (\<lambda>k. now - timedelta_hours 24 + int k * minutes_15) [0..<97]
   \<and> timestamp (hd (fst (generate_historical_data HistoricalDataGenerator_init now g)))
       = now - timedelta_hours 24
   \<and> timestamp (last (fst (generate_historical_data HistoricalDataGenerator_init now g))) = now
   \<and> sorted_wrt (<)
       (map timestamp (fst (generate_historical_data HistoricalDataGenerator_init now g)))
   \<and> (\<forall>i < 96.
         timestamp (fst (generate_historical_data HistoricalDataGenerator_init now g) ! Suc i)
         - timestamp (fst (generate_historical_data HistoricalDataGenerator_init now g) ! i)
         = minutes_15)
   \<and> length (fst (generate_historical_data HistoricalDataGenerator_init now g'))
       = length (fst (generate_historical_data HistoricalDataGenerator_init now g))"
proof -
  let ?rows = "fst (generate_historical_data HistoricalDataGenerator_init now g)"
  let ?f = "\<lambda>k. now - timedelta_hours 24 + int k * minutes_15"
  have ts: "map timestamp ?rows = map ?f [0..<97]"
    by (rule historical_timestamps)
  have len: "length ?rows = 97"
    by (rule historical_length)
  then have ne: "?rows \<noteq> []"
    by auto
  have "timestamp (hd ?rows) = hd (map timestamp ?rows)"
    using ne by (simp add: hd_map)
  then have first: "timestamp (hd ?rows) = now - timedelta_hours 24"
    unfolding ts by (simp add: hd_map)
  have "timestamp (last ?rows) = last (map timestamp ?rows)"
    using ne by (simp add: last_map)
  then have final: "timestamp (last ?rows) = now"
    unfolding ts by (simp add: last_map timedelta_hours_def minutes_15_def)
  have "sorted_wrt (\<lambda>i j. ?f i < ?f j) [0..<97]"
    by (rule sorted_wrt_mono_rel [OF _ sorted_wrt_upt]) (simp add: minutes_15_def)
  then have ordered: "sorted_wrt (<) (map timestamp ?rows)"
    unfolding ts by (simp only: sorted_wrt_map)
  have nth: "timestamp (?rows ! i) = ?f i" if "i < 97" for i
  proof -
    have "timestamp (?rows ! i) = map timestamp ?rows ! i"
      using that len by simp
    also have "\<dots> = ?f i"
      unfolding ts using that by (simp del: upt_Suc)
    finally show ?thesis .
  qed
  have spacing: "\<forall>i < 96. timestamp (?rows ! Suc i) - timestamp (?rows ! i) = minutes_15"
  proof (intro allI impI)
    fix i :: nat
    assume "i < 96"
    then show "timestamp (?rows ! Suc i) - timestamp (?rows ! i) = minutes_15"
      using nth [of i] nth [of "Suc i"] by (simp add: algebra_simps)
  qed
  have "length (fst (generate_historical_data HistoricalDataGenerator_init now g')) = 97"
    by (rule historical_length)
  with len ts first final ordered spacing show ?thesis
    by (simp only: simp_thms)
qed

theorem historical_series_shape_witness:
  "length (fst (generate_historical_data HistoricalDataGenerator_init 86400000000 (\<lambda>n. 0))) = 97
   \<and> timestamp (hd (fst (generate_historical_data HistoricalDataGenerator_init 86400000000
        (\<lambda>n. 0)))) = 0
   \<and> timestamp (last (fst (generate_historical_data HistoricalDataGenerator_init 86400000000
        (\<lambda>n. 0)))) = 86400000000
   \<and> timestamp (fst (generate_historical_data HistoricalDataGenerator_init 86400000000
        (\<lambda>n. 0)) ! Suc 0)
     - timestamp (fst (generate_historical_data HistoricalDataGenerator_init 86400000000
        (\<lambda>n. 0)) ! 0) = 900000000"
  using historical_series_shape [of 86400000000 "\<lambda>n. 0" "\<lambda>n. 0"]
  by (simp add: timedelta_hours_def minutes_15_def)

subsection \<open>Determinism of the simulator\<close>

lemma get_current_readings_draws:
  assumes "\<forall>i < 6. g i = g' i"
  shows "fst (get_current_readings sim loc now g) = fst (get_current_readings sim loc now g')"
proof -
  have "g 0 = g' 0" "g (Suc 0) = g' (Suc 0)" "g (Suc (Suc 0)) = g' (Suc (Suc 0))"
    "g (Suc (Suc (Suc 0))) = g' (Suc (Suc (Suc 0)))"
    "g (Suc (Suc (Suc (Suc 0)))) = g' (Suc (Suc (Suc (Suc 0))))"
    "g (Suc (Suc (Suc (Suc (Suc 0))))) = g' (Suc (Suc (Suc (Suc (Suc 0)))))"
    using assms by simp_all
  then show ?thesis
    unfolding get_current_readings_def normal_def uniform_def next_draw_def Let_def split_beta
      fst_conv snd_conv
    by (simp only:)
qed

text \<open>
  Claim C9. With the clock and the generator state made explicit, two calls of
  \<^const>\<open>get_current_readings\<close> for the same location, the same \<open>now\<close> and the generator
  state of the same seed return the same reading and leave the same generator state, on
  any two simulator instances (they differ in \<open>last_update\<close> only). The reading is
  moreover a function of the first six draws.
\<close>

theorem sample_deterministic:
  "get_current_readings (SensorSimulator_init t1) loc now (seed s)
     = get_current_readings (SensorSimulator_init t2) loc now (seed s)
   \<and> ((\<forall>i < 6. g i = g' i) \<longrightarrow>
        fst (get_current_readings sim loc now g) = fst (get_current_readings sim loc now g'))"
proof -
  have "base_values (SensorSimulator_init t1) = base_values (SensorSimulator_init t2)"
    by (simp add: SensorSimulator_init_def)
  then have "get_current_readings (SensorSimulator_init t1) loc now (seed s)
     = get_current_readings (SensorSimulator_init t2) loc now (seed s)"
    unfolding get_current_readings_def by (simp only:)
  then show ?thesis
    using get_current_readings_draws [of g g' sim loc now] by blast
qed

theorem sample_deterministic_witness:
  "fst (get_current_readings (SensorSimulator_init 1) ''Building A - Lobby'' 0 (\<lambda>n. 0))
     = \<lparr>timestamp = 0, humidity = 65, light = 500, moisture = 600, co2 = 400,
        temperature = 22, location = ''Building A - Lobby'', co2_absorption = 117 / 14\<rparr>
   \<and> get_current_readings (SensorSimulator_init 1) ''Building A - Lobby'' 0 (\<lambda>n. 0)
     = get_current_readings (SensorSimulator_init 2) ''Building A - Lobby'' 0 (\<lambda>n. 0)
   \<and> fst (get_current_readings (SensorSimulator_init 1) ''Building A - Lobby'' 0 (\<lambda>n. 0))
     = fst (get_current_readings (SensorSimulator_init 1) ''Building A - Lobby'' 0
         (\<lambda>n. if n < 6 then 0 else 1))"
proof -
  note inst = sample_deterministic [of 1 "''Building A - Lobby''" 0 "\<lambda>s n. 0" "0 :: nat" 2
      "\<lambda>n :: nat. 0" "\<lambda>n. if n < 6 then 0 else 1" "SensorSimulator_init 1"]
  have agree: "\<forall>i < 6. (0 :: real) = (if (i :: nat) < 6 then 0 else 1)"
    by simp
  have val: "fst (get_current_readings (SensorSimulator_init 1) ''Building A - Lobby'' 0
      (\<lambda>n. 0))
     = \<lparr>timestamp = 0, humidity = 65, light = 500, moisture = 600, co2 = 400,
        temperature = 22, location = ''Building A - Lobby'', co2_absorption = 117 / 14\<rparr>"
    by (simp add: get_current_readings_def SensorSimulator_init_def location_factors_def
        normal_def uniform_def next_draw_def hour_def Let_def)
  from inst have same: "get_current_readings (SensorSimulator_init 1) ''Building A - Lobby'' 0
      (\<lambda>n. 0)
     = get_current_readings (SensorSimulator_init 2) ''Building A - Lobby'' 0 (\<lambda>n. 0)"
    by (rule conjunct1)
  from inst agree have
    "fst (get_current_readings (SensorSimulator_init 1) ''Building A - Lobby'' 0 (\<lambda>n. 0))
     = fst (get_current_readings (SensorSimulator_init 1) ''Building A - Lobby'' 0
         (\<lambda>n. if n < 6 then 0 else 1))"
    by blast
  with val same show ?thesis
    by (intro conjI)
qed

end
